theory Spec2Isabelle
  imports Main "HOL-Library.Sublist"
begin

section \<open>Scoped migration requests (scoped\_migration\_request.cpp)\<close>

text \<open>
  A \<open>ScopedMigrationRequest\<close> guards one document of the collection config.migrations:
  \<open>writeMigration\<close> inserts the document (or joins an identical one that is already there),
  and the destructor removes it again unless the object has been disarmed by clearing its
  operation-context pointer.

  The embedding makes the effects of the C++ explicit:
  \<^item> every call made to the config server is appended to a trace (\<open>calls\<close>), every log line to
    a log (\<open>logged\<close>); both live in a \<open>World\<close> that each function takes and returns;
  \<^item> the config server is not part of the file; what it answers is given by reply functions
    that see the whole trace up to and including the call they answer, so any behaviour of
    the store (also one changed by other writers between two calls) is an instance;
  \<^item> a \<open>Status\<close> is a value, a \<open>StatusWith<T>\<close> the sum \<open>Status + T\<close>;
  \<^item> a failed \<open>invariant\<close> ends the process: functions that contain one return \<open>Fatal + \<dots>\<close>.
\<close>

subsection \<open>Data\<close>

type_synonym NamespaceString = string
type_synonym ShardId = string

datatype BSONElement =
    BSONString string
  | BSONInt int
  | BSONBool bool
  | BSONObject "(string \<times> BSONElement) list"

type_synonym BSONObj = "(string \<times> BSONElement) list"

text \<open>An \<open>OperationContext*\<close> is a nullable pointer: \<open>None\<close> is \<open>nullptr\<close>.\<close>

datatype OperationContext = OperationContext nat

text \<open>
  The error codes the file names, and \<open>OtherError n\<close> for every other code of the
  server's table.
\<close>

datatype ErrorCodes = OK | DuplicateKey | OperationFailed | OtherError nat

datatype Status = Status (code: ErrorCodes) (reason: string)

definition isOK :: "Status \<Rightarrow> bool" where
  "isOK st = (code st = OK)"

definition Status_OK :: Status where
  "Status_OK = Status OK []"

datatype WriteConcernW = kMajority | WNodes nat
datatype SyncMode = UNSET | NONE | FSYNC | JOURNAL
datatype WTimeout = kNoTimeout | kWriteConcernTimeoutMigration | WTimeoutMillis nat

datatype WriteConcernOptions = WriteConcernOptions WriteConcernW SyncMode WTimeout

definition kMajorityWriteConcern :: WriteConcernOptions where
  "kMajorityWriteConcern = WriteConcernOptions kMajority UNSET kWriteConcernTimeoutMigration"

definition kDuplicateKeyErrorMaxRetries :: nat where
  "kDuplicateKeyErrorMaxRetries = 2"

datatype ReadPreference = PrimaryOnly | PrimaryPreferred | SecondaryOnly | SecondaryPreferred | Nearest
datatype ReadConcernLevel = kLocalReadConcern | kMajorityReadConcern | kLinearizableReadConcern

text \<open>
  \<open>MigrateInfo\<close> is declared in the balancer policy. The file reads \<open>minKey\<close>, \<open>maxKey\<close>,
  \<open>from\<close> and \<open>to\<close>; \<open>uuid\<close> stands for what \<open>getNss\<close> resolves to a namespace.
\<close>

record MigrateInfo =
  uuid :: string
  minKey :: BSONObj
  maxKey :: BSONObj
  from_shard :: ShardId
  to_shard :: ShardId

text \<open>\<open>MigrationType(nss, migrateInfo, waitForDelete)\<close>: the document type of config.migrations.\<close>

datatype MigrationType = MigrationType NamespaceString MigrateInfo bool

text \<open>
  The object itself: the members \<open>_opCtx\<close>, \<open>_nss\<close> and \<open>_minKey\<close>. It is Armed while
  \<open>_opCtx\<close> is not null and Disarmed once it is.
\<close>

record ScopedMigrationRequest =
  m_opCtx :: "OperationContext option"
  m_nss :: NamespaceString
  m_minKey :: BSONObj

subsection \<open>The world outside the file\<close>

datatype StoreCall =
    InsertConfigDocument OperationContext NamespaceString BSONObj WriteConcernOptions
  | RemoveConfigDocuments OperationContext NamespaceString BSONObj WriteConcernOptions
  | ExhaustiveFindOnConfig OperationContext ReadPreference ReadConcernLevel NamespaceString
      BSONObj BSONObj "nat option"

datatype LogAttr = AttrBSON BSONObj | AttrString string | AttrNss NamespaceString

datatype LogLine =
    LOGV2 nat string "(string \<times> LogAttr) list"
  | LOGV2_DEBUG nat nat string "(string \<times> LogAttr) list"

record World =
  calls :: "StoreCall list"
  logged :: "LogLine list"

text \<open>
  Everything the file uses and does not define is a field of \<open>Env\<close>: the replies of the
  catalog client and of the config shard, and the declarations of \<open>MigrationType\<close>,
  \<open>MigrateInfo\<close>, \<open>ChunkRange\<close>, \<open>Status\<close> and \<open>redact\<close>. Every theorem below holds for
  every \<open>Env\<close>.
\<close>

record Env =
  insert_reply :: "StoreCall list \<Rightarrow> Status"
  remove_reply :: "StoreCall list \<Rightarrow> Status"
  find_reply :: "StoreCall list \<Rightarrow> Status + BSONObj list"
  ConfigNS :: NamespaceString
  ns_field :: string
  min_field :: string
  getNss :: "OperationContext \<Rightarrow> MigrateInfo \<Rightarrow> Status + NamespaceString"
  toBSON :: "MigrationType \<Rightarrow> BSONObj"
  fromBSON :: "BSONObj \<Rightarrow> Status + MigrationType"
  toMigrateInfo :: "OperationContext \<Rightarrow> MigrationType \<Rightarrow> MigrateInfo"
  getMigrationTypeQuery :: "MigrateInfo \<Rightarrow> NamespaceString \<Rightarrow> BSONObj"
  MigrateInfo_toString :: "MigrateInfo \<Rightarrow> string"
  BSONObj_toString :: "BSONObj \<Rightarrow> string"
  ChunkRange_toString :: "BSONObj \<Rightarrow> BSONObj \<Rightarrow> string"
  redact :: "string \<Rightarrow> string"
  redact_status :: "Status \<Rightarrow> string"
  withContext :: "Status \<Rightarrow> string \<Rightarrow> Status"

datatype Fatal = InvariantFailure | NullDereference

definition insertConfigDocument ::
  "Env \<Rightarrow> OperationContext \<Rightarrow> NamespaceString \<Rightarrow> BSONObj \<Rightarrow> WriteConcernOptions \<Rightarrow> World
    \<Rightarrow> Status \<times> World" where
  "insertConfigDocument E c ns doc wc w =
     (let cs = calls w @ [InsertConfigDocument c ns doc wc]
      in (insert_reply E cs, w\<lparr>calls := cs\<rparr>))"

definition removeConfigDocuments ::
  "Env \<Rightarrow> OperationContext \<Rightarrow> NamespaceString \<Rightarrow> BSONObj \<Rightarrow> WriteConcernOptions \<Rightarrow> World
    \<Rightarrow> Status \<times> World" where
  "removeConfigDocuments E c ns query wc w =
     (let cs = calls w @ [RemoveConfigDocuments c ns query wc]
      in (remove_reply E cs, w\<lparr>calls := cs\<rparr>))"

definition exhaustiveFindOnConfig ::
  "Env \<Rightarrow> OperationContext \<Rightarrow> ReadPreference \<Rightarrow> ReadConcernLevel \<Rightarrow> NamespaceString \<Rightarrow> BSONObj
    \<Rightarrow> BSONObj \<Rightarrow> nat option \<Rightarrow> World \<Rightarrow> (Status + BSONObj list) \<times> World" where
  "exhaustiveFindOnConfig E c pref level ns query sortBy limit w =
     (let cs = calls w @ [ExhaustiveFindOnConfig c pref level ns query sortBy limit]
      in (find_reply E cs, w\<lparr>calls := cs\<rparr>))"

definition log_line :: "LogLine \<Rightarrow> World \<Rightarrow> World" where
  "log_line l w = w\<lparr>logged := logged w @ [l]\<rparr>"

subsection \<open>Construction, destruction, moves\<close>

definition ScopedMigrationRequest_ctor ::
  "OperationContext option \<Rightarrow> NamespaceString \<Rightarrow> BSONObj \<Rightarrow> ScopedMigrationRequest" where
  "ScopedMigrationRequest_ctor opCtx nss mk = \<lparr>m_opCtx = opCtx, m_nss = nss, m_minKey = mk\<rparr>"

text \<open>\<open>BSON(MigrationType::ns(_nss.ns()) << MigrationType::min(_minKey))\<close>\<close>

definition migrationDocumentIdentifier :: "Env \<Rightarrow> ScopedMigrationRequest \<Rightarrow> BSONObj" where
  "migrationDocumentIdentifier E this =
     [(ns_field E, BSONString (m_nss this)), (min_field E, BSONObject (m_minKey this))]"

text \<open>
  The destructor returns nothing: whatever the removal answers, the only trace of it is
  the call and, when it failed, log line 21900.
\<close>

definition destructor :: "Env \<Rightarrow> ScopedMigrationRequest \<Rightarrow> World \<Rightarrow> World" where
  "destructor E this w =
     (case m_opCtx this of
        None \<Rightarrow> w
      | Some c \<Rightarrow>
          (let ident = migrationDocumentIdentifier E this;
               (result, w1) = removeConfigDocuments E c (ConfigNS E) ident kMajorityWriteConcern w
           in if \<not> isOK result
              then log_line (LOGV2 21900 ''Failed to remove config.migrations document for migration''
                     [(''migration'', AttrBSON ident),
                      (''error'', AttrString (redact_status E result))]) w1
              else w1))"

text \<open>
  The body of the move assignment for two different objects: three members copied, then
  the source's context pointer cleared. The result is the pair (this, other).
\<close>

definition move_members ::
  "ScopedMigrationRequest \<Rightarrow> ScopedMigrationRequest \<Rightarrow> ScopedMigrationRequest \<times> ScopedMigrationRequest" where
  "move_members this other =
     (let this1 = this\<lparr>m_opCtx := m_opCtx other\<rparr>;
          this2 = this1\<lparr>m_nss := m_nss other\<rparr>;
          this3 = this2\<lparr>m_minKey := m_minKey other\<rparr>;
          other1 = other\<lparr>m_opCtx := None\<rparr>
      in (this3, other1))"

text \<open>
  Objects live at addresses; \<open>operator=\<close> compares the two addresses before it touches
  anything. The move constructor runs the assignment on the object under construction.
\<close>

type_synonym heap = "nat \<Rightarrow> ScopedMigrationRequest"

definition operator_assign :: "nat \<Rightarrow> nat \<Rightarrow> heap \<Rightarrow> heap" where
  "operator_assign this other h =
     (if this \<noteq> other
      then (let (t, oth) = move_members (h this) (h other) in h(this := t, other := oth))
      else h)"

definition move_constructor :: "nat \<Rightarrow> nat \<Rightarrow> heap \<Rightarrow> heap" where
  "move_constructor this other h = operator_assign this other h"

definition destructor_at :: "Env \<Rightarrow> nat \<Rightarrow> heap \<Rightarrow> World \<Rightarrow> World" where
  "destructor_at E a h w = destructor E (h a) w"

text \<open>
  Returning a local by \<open>std::move\<close>: the returned object is move-constructed from the local
  one (its own members, overwritten at once, start empty here), and the local one is
  destroyed on the way out.
\<close>

definition return_moved ::
  "Env \<Rightarrow> ScopedMigrationRequest \<Rightarrow> World \<Rightarrow> ScopedMigrationRequest \<times> World" where
  "return_moved E local w =
     (let (ret, local1) = move_members \<lparr>m_opCtx = None, m_nss = [], m_minKey = []\<rparr> local
      in (ret, destructor E local1 w))"

subsection \<open>writeMigration\<close>

definition quote :: string where
  "quote = [CHR 0x27]"

definition verify_prefix :: "Env \<Rightarrow> MigrateInfo \<Rightarrow> string" where
  "verify_prefix E migrateInfo =
     ''Failed to verify whether conflicting migration is in progress for migration ''
       @ quote @ redact E (MigrateInfo_toString E migrateInfo) @ quote"

text \<open>Lines 184 to 189: the status returned when the loop runs out.\<close>

definition max_retries_status :: "Env \<Rightarrow> MigrateInfo \<Rightarrow> NamespaceString \<Rightarrow> Status" where
  "max_retries_status E migrateInfo nss =
     Status OperationFailed
       (''Failed to insert the config.migrations document after max number of retries. Chunk ''
          @ quote @ ChunkRange_toString E (minKey migrateInfo) (maxKey migrateInfo) @ quote
          @ '' in collection '' @ quote @ nss @ quote
          @ '' was being moved (somewhere) by another operation.'')"

text \<open>Lines 170 to 181: the local object, and what leaves the function.\<close>

definition writeMigration_finish ::
  "Env \<Rightarrow> OperationContext \<Rightarrow> NamespaceString \<Rightarrow> MigrateInfo \<Rightarrow> Status \<Rightarrow> World
    \<Rightarrow> (Fatal + Status + ScopedMigrationRequest) \<times> World" where
  "writeMigration_finish E c nss migrateInfo result w =
     (let scopedMigrationRequest = ScopedMigrationRequest_ctor (Some c) nss (minKey migrateInfo)
      in if \<not> isOK result
         then (Inr (Inl result), destructor E scopedMigrationRequest w)
         else (let (ret, w1) = return_moved E scopedMigrationRequest w in (Inr (Inr ret), w1)))"

function writeMigration_loop ::
  "Env \<Rightarrow> OperationContext \<Rightarrow> MigrateInfo \<Rightarrow> NamespaceString \<Rightarrow> MigrationType \<Rightarrow> nat \<Rightarrow> World
    \<Rightarrow> (Fatal + Status + ScopedMigrationRequest) \<times> World" where
  "writeMigration_loop E c migrateInfo nss migrationType retry w =
     (if retry < kDuplicateKeyErrorMaxRetries
      then
        (case insertConfigDocument E c (ConfigNS E) (toBSON E migrationType) kMajorityWriteConcern w of
           (result, w1) \<Rightarrow>
             if code result = DuplicateKey
             then
               (case exhaustiveFindOnConfig E c PrimaryOnly kLocalReadConcern (ConfigNS E)
                       (getMigrationTypeQuery E migrateInfo nss) [] None w1 of
                  (Inl st, w2) \<Rightarrow>
                    (Inr (Inl (withContext E st
                       (verify_prefix E migrateInfo @ '' while trying to query config.migrations.''))), w2)
                | (Inr docs, w2) \<Rightarrow>
                    (case docs of
                       [] \<Rightarrow> writeMigration_loop E c migrateInfo nss migrationType (retry + 1) w2
                     | [activeMigrationBSON] \<Rightarrow>
                         (case fromBSON E activeMigrationBSON of
                            Inl st \<Rightarrow>
                              (Inr (Inl (withContext E st
                                 (verify_prefix E migrateInfo
                                    @ '' while trying to parse active migration document ''
                                    @ quote @ redact E (BSONObj_toString E activeMigrationBSON)
                                    @ quote @ ''.''))), w2)
                          | Inr activeMigration \<Rightarrow>
                              (let activeMigrateInfo = toMigrateInfo E c activeMigration
                               in if to_shard activeMigrateInfo \<noteq> to_shard migrateInfo
                                     \<or> from_shard activeMigrateInfo \<noteq> from_shard migrateInfo
                                  then (Inr (Inl result),
                                        log_line (LOGV2 21901
                                          ''Failed to write document to config.migrations because there is already an active migration for that chunk''
                                          [(''newMigration'',
                                              AttrString (redact E (MigrateInfo_toString E migrateInfo))),
                                           (''activeMigration'',
                                              AttrString (redact E (MigrateInfo_toString E activeMigrateInfo))),
                                           (''error'', AttrString (redact_status E result))]) w2)
                                  else writeMigration_finish E c nss migrateInfo Status_OK w2))
                     | _ \<Rightarrow> (Inl InvariantFailure, w2)))
             else writeMigration_finish E c nss migrateInfo result w1)
      else
        (Inr (Inl (max_retries_status E migrateInfo nss)), w))"
  by pat_completeness auto
termination
  by (relation "measure (\<lambda>(E, c, migrateInfo, nss, migrationType, retry, w).
        kDuplicateKeyErrorMaxRetries - retry)") auto

text \<open>
  \<open>Grid::get(opCtx)\<close> dereferences the pointer before anything else happens; a null pointer
  ends the call there.
\<close>

definition writeMigration ::
  "Env \<Rightarrow> OperationContext option \<Rightarrow> MigrateInfo \<Rightarrow> bool \<Rightarrow> World
    \<Rightarrow> (Fatal + Status + ScopedMigrationRequest) \<times> World" where
  "writeMigration E opCtx migrateInfo waitForDelete w =
     (case opCtx of
        None \<Rightarrow> (Inl NullDereference, w)
      | Some c \<Rightarrow>
          (case getNss E c migrateInfo of
             Inl st \<Rightarrow> (Inr (Inl st), w)
           | Inr nss \<Rightarrow>
               writeMigration_loop E c migrateInfo nss
                 (MigrationType nss migrateInfo waitForDelete) 0 w))"

subsection \<open>createForRecovery, tryToRemoveMigration, keepDocumentOnDestruct\<close>

definition createForRecovery ::
  "OperationContext option \<Rightarrow> NamespaceString \<Rightarrow> BSONObj \<Rightarrow> ScopedMigrationRequest" where
  "createForRecovery opCtx nss mk = ScopedMigrationRequest_ctor opCtx nss mk"

definition tryToRemoveMigration ::
  "Env \<Rightarrow> ScopedMigrationRequest \<Rightarrow> World \<Rightarrow> Fatal + Status \<times> ScopedMigrationRequest \<times> World" where
  "tryToRemoveMigration E this w =
     (case m_opCtx this of
        None \<Rightarrow> Inl InvariantFailure
      | Some c \<Rightarrow>
          (let ident = migrationDocumentIdentifier E this;
               (status, w1) = removeConfigDocuments E c (ConfigNS E) ident kMajorityWriteConcern w
           in Inr (status, (if isOK status then this\<lparr>m_opCtx := None\<rparr> else this), w1)))"

definition keepDocumentOnDestruct ::
  "ScopedMigrationRequest \<Rightarrow> World \<Rightarrow> Fatal + ScopedMigrationRequest \<times> World" where
  "keepDocumentOnDestruct this w =
     (case m_opCtx this of
        None \<Rightarrow> Inl InvariantFailure
      | Some c \<Rightarrow>
          Inr (this\<lparr>m_opCtx := None\<rparr>,
               log_line (LOGV2_DEBUG 21902 1 ''Keeping config.migrations document for balancer recovery''
                 [(''namespace'', AttrNss (m_nss this)), (''minKey'', AttrBSON (m_minKey this))]) w))"

subsection \<open>The life of a handle\<close>

text \<open>
  What a caller can do with a handle between receiving it and the end of its scope: any
  sequence of \<open>tryToRemoveMigration\<close> and \<open>keepDocumentOnDestruct\<close>, then the destructor.
  \<open>lifetime\<close> collects the statuses that \<open>tryToRemoveMigration\<close> returned; a failed
  \<open>invariant\<close> ends the run.
\<close>

datatype HandleOp = TryToRemoveMigration | KeepDocumentOnDestruct

fun lifetime ::
  "Env \<Rightarrow> HandleOp list \<Rightarrow> ScopedMigrationRequest \<Rightarrow> World \<Rightarrow> Fatal + Status list \<times> World" where
  "lifetime E [] this w = Inr ([], destructor E this w)"
| "lifetime E (TryToRemoveMigration # ops) this w =
     (case tryToRemoveMigration E this w of
        Inl f \<Rightarrow> Inl f
      | Inr (st, this1, w1) \<Rightarrow>
          (case lifetime E ops this1 w1 of
             Inl f \<Rightarrow> Inl f
           | Inr (sts, w2) \<Rightarrow> Inr (st # sts, w2)))"
| "lifetime E (KeepDocumentOnDestruct # ops) this w =
     (case keepDocumentOnDestruct this w of
        Inl f \<Rightarrow> Inl f
      | Inr (this1, w1) \<Rightarrow> lifetime E ops this1 w1)"

subsection \<open>Reading the trace\<close>

text \<open>The three calls the file makes, as they appear in the trace.\<close>

definition insert_call :: "Env \<Rightarrow> OperationContext \<Rightarrow> MigrationType \<Rightarrow> StoreCall" where
  "insert_call E c migrationType =
     InsertConfigDocument c (ConfigNS E) (toBSON E migrationType) kMajorityWriteConcern"

definition find_call :: "Env \<Rightarrow> OperationContext \<Rightarrow> MigrateInfo \<Rightarrow> NamespaceString \<Rightarrow> StoreCall" where
  "find_call E c migrateInfo nss =
     ExhaustiveFindOnConfig c PrimaryOnly kLocalReadConcern (ConfigNS E)
       (getMigrationTypeQuery E migrateInfo nss) [] None"

definition remove_call :: "Env \<Rightarrow> OperationContext \<Rightarrow> NamespaceString \<Rightarrow> BSONObj \<Rightarrow> StoreCall" where
  "remove_call E c nss mk =
     RemoveConfigDocuments c (ConfigNS E)
       [(ns_field E, BSONString nss), (min_field E, BSONObject mk)] kMajorityWriteConcern"

text \<open>
  \<open>after_retries \<dots> w n\<close> is the world after \<open>n\<close> rounds of the loop that each met a
  \<open>DuplicateKey\<close> on the insert and then found no document, started in \<open>w\<close>; \<open>None\<close> when
  the replies of the store do not go that way.
\<close>

fun after_retries ::
  "Env \<Rightarrow> OperationContext \<Rightarrow> MigrateInfo \<Rightarrow> NamespaceString \<Rightarrow> MigrationType \<Rightarrow> World \<Rightarrow> nat
    \<Rightarrow> World option" where
  "after_retries E c migrateInfo nss migrationType w 0 = Some w"
| "after_retries E c migrateInfo nss migrationType w (Suc n) =
     (case after_retries E c migrateInfo nss migrationType w n of
        None \<Rightarrow> None
      | Some w1 \<Rightarrow>
          if code (insert_reply E (calls w1 @ [insert_call E c migrationType])) = DuplicateKey
             \<and> find_reply E (calls w1 @ [insert_call E c migrationType,
                                         find_call E c migrateInfo nss]) = Inr []
          then Some (w1\<lparr>calls := calls w1 @ [insert_call E c migrationType,
                                             find_call E c migrateInfo nss]\<rparr>)
          else None)"

fun is_insert :: "StoreCall \<Rightarrow> bool" where
  "is_insert (InsertConfigDocument c ns doc wc) = True"
| "is_insert (RemoveConfigDocuments c ns query wc) = False"
| "is_insert (ExhaustiveFindOnConfig c pref level ns query sortBy limit) = False"

definition count_inserts :: "StoreCall list \<Rightarrow> nat" where
  "count_inserts cs = length (filter is_insert cs)"

text \<open>A removal of the document that \<open>this\<close> stands for, under whatever write concern.\<close>

fun is_removal_of :: "Env \<Rightarrow> ScopedMigrationRequest \<Rightarrow> StoreCall \<Rightarrow> bool" where
  "is_removal_of E this (InsertConfigDocument c ns doc wc) = False"
| "is_removal_of E this (RemoveConfigDocuments c ns query wc) =
     (ns = ConfigNS E \<and> query = migrationDocumentIdentifier E this)"
| "is_removal_of E this (ExhaustiveFindOnConfig c pref level ns query sortBy limit) = False"

definition count_removals :: "Env \<Rightarrow> ScopedMigrationRequest \<Rightarrow> StoreCall list \<Rightarrow> nat" where
  "count_removals E this cs = length (filter (is_removal_of E this) cs)"

text \<open>
  A status describes a migration when its reason contains the text the file itself uses
  for one, \<open>redact(migrateInfo.toString())\<close>, as the two statuses built with
  \<open>withContext\<close> in \<open>writeMigration\<close> do.
\<close>

definition describes :: "Env \<Rightarrow> Status \<Rightarrow> MigrateInfo \<Rightarrow> bool" where
  "describes E st migrateInfo =
     sublist (redact E (MigrateInfo_toString E migrateInfo)) (reason st)"

subsection \<open>An environment to run the functions in\<close>

text \<open>
  One instance of \<open>Env\<close>, open in the three replies of the store: documents of
  config.migrations with their six fields, \<open>redact\<close> switched off, \<open>withContext\<close> prefixing
  the reason.
\<close>

definition example_toBSON :: "MigrationType \<Rightarrow> BSONObj" where
  "example_toBSON mt =
     (case mt of MigrationType nss mi waitForDelete \<Rightarrow>
        [(''ns'', BSONString nss), (''min'', BSONObject (minKey mi)),
         (''max'', BSONObject (maxKey mi)), (''fromShard'', BSONString (from_shard mi)),
         (''toShard'', BSONString (to_shard mi)), (''waitForDelete'', BSONBool waitForDelete)])"

definition example_fromBSON :: "BSONObj \<Rightarrow> Status + MigrationType" where
  "example_fromBSON doc =
     (case doc of
        [(n, BSONString nss), (lo, BSONObject mn), (hi, BSONObject mx),
         (f, BSONString fr), (t, BSONString to), (wd, BSONBool waitForDelete)] \<Rightarrow>
          Inr (MigrationType nss
                 \<lparr>uuid = nss, minKey = mn, maxKey = mx, from_shard = fr, to_shard = to\<rparr>
                 waitForDelete)
      | _ \<Rightarrow> Inl (Status (OtherError 4) ''missing field''))"

definition example_toString :: "MigrateInfo \<Rightarrow> string" where
  "example_toString mi =
     uuid mi @ '': from '' @ from_shard mi @ '', to '' @ to_shard mi"

definition example_env ::
  "(StoreCall list \<Rightarrow> Status) \<Rightarrow> (StoreCall list \<Rightarrow> Status)
    \<Rightarrow> (StoreCall list \<Rightarrow> Status + BSONObj list) \<Rightarrow> Env" where
  "example_env ins rem fnd =
     \<lparr>insert_reply = ins, remove_reply = rem, find_reply = fnd,
      ConfigNS = ''config.migrations'', ns_field = ''ns'', min_field = ''min'',
      getNss = (\<lambda>c mi. Inr (uuid mi)),
      toBSON = example_toBSON, fromBSON = example_fromBSON,
      toMigrateInfo = (\<lambda>c mt. case mt of MigrationType nss mi waitForDelete \<Rightarrow> mi),
      getMigrationTypeQuery =
        (\<lambda>mi nss. [(''ns'', BSONString nss), (''min'', BSONObject (minKey mi))]),
      MigrateInfo_toString = example_toString,
      BSONObj_toString = (\<lambda>obj. ''{'' @ concat (map fst obj) @ ''}''),
      ChunkRange_toString = (\<lambda>mn mx. ''['' @ concat (map fst mn) @ '', '' @ concat (map fst mx) @ '')''),
      redact = (\<lambda>s. s), redact_status = reason,
      withContext = (\<lambda>st context. Status (code st) (context @ '' :: caused by :: '' @ reason st))\<rparr>"

definition ctx1 :: OperationContext where
  "ctx1 = OperationContext 1"

definition move_S1_S2 :: MigrateInfo where
  "move_S1_S2 = \<lparr>uuid = ''db.coll'', minKey = [(''x'', BSONInt 10)], maxKey = [(''x'', BSONInt 20)],
                  from_shard = ''S1'', to_shard = ''S2''\<rparr>"

definition move_S1_S3 :: MigrateInfo where
  "move_S1_S3 = \<lparr>uuid = ''db.coll'', minKey = [(''x'', BSONInt 10)], maxKey = [(''x'', BSONInt 20)],
                  from_shard = ''S1'', to_shard = ''S3''\<rparr>"

definition world0 :: World where
  "world0 = \<lparr>calls = [], logged = []\<rparr>"

definition dup_key :: Status where
  "dup_key = Status DuplicateKey ''E11000 duplicate key error''"

definition not_primary :: Status where
  "not_primary = Status (OtherError 10107) ''not primary''"

definition migration_S1_S2 :: MigrationType where
  "migration_S1_S2 = MigrationType ''db.coll'' move_S1_S2 False"

definition handle1 :: ScopedMigrationRequest where
  "handle1 = \<lparr>m_opCtx = Some ctx1, m_nss = ''db.coll'', m_minKey = [(''x'', BSONInt 10)]\<rparr>"

text \<open>A heap with \<open>handle1\<close> at address 0 and Disarmed, empty objects elsewhere.\<close>

definition heap1 :: heap where
  "heap1 = (\<lambda>a. \<lparr>m_opCtx = None, m_nss = [], m_minKey = []\<rparr>)(0 := handle1)"

definition store_remove_fails :: Env where
  "store_remove_fails = example_env (\<lambda>cs. Status_OK) (\<lambda>cs. not_primary) (\<lambda>cs. Inr [])"

definition store_remove_fails_once :: Env where
  "store_remove_fails_once =
     example_env (\<lambda>cs. Status_OK)
       (\<lambda>cs. if length cs \<le> 2 then not_primary else Status_OK) (\<lambda>cs. Inr [])"

definition store_insert_fails :: Env where
  "store_insert_fails = example_env (\<lambda>cs. not_primary) (\<lambda>cs. Status_OK) (\<lambda>cs. Inr [])"

definition store_conflict_twice :: Env where
  "store_conflict_twice =
     example_env (\<lambda>cs. if count_inserts cs \<le> 2 then dup_key else Status_OK)
       (\<lambda>cs. Status_OK) (\<lambda>cs. Inr [])"

definition store_active_S1_S2 :: Env where
  "store_active_S1_S2 =
     example_env (\<lambda>cs. dup_key) (\<lambda>cs. Status_OK)
       (\<lambda>cs. Inr [example_toBSON migration_S1_S2])"

section \<open>Properties\<close>

subsection \<open>The destructor and the loop, step by step\<close>

declare writeMigration_loop.simps [simp del]

lemma destructor_armed:
  "m_opCtx this = Some c \<Longrightarrow>
     destructor E this w =
       (let r = remove_reply E (calls w @ [remove_call E c (m_nss this) (m_minKey this)]);
            w1 = w\<lparr>calls := calls w @ [remove_call E c (m_nss this) (m_minKey this)]\<rparr>
        in if isOK r then w1
           else log_line (LOGV2 21900 ''Failed to remove config.migrations document for migration''
                  [(''migration'', AttrBSON (migrationDocumentIdentifier E this)),
                   (''error'', AttrString (redact_status E r))]) w1)"
  by (simp add: destructor_def removeConfigDocuments_def remove_call_def
      migrationDocumentIdentifier_def Let_def)

lemma destructor_disarmed: "m_opCtx this = None \<Longrightarrow> destructor E this w = w"
  by (simp add: destructor_def)

lemma calls_destructor_armed:
  "m_opCtx this = Some c \<Longrightarrow>
     calls (destructor E this w) = calls w @ [remove_call E c (m_nss this) (m_minKey this)]"
  by (simp add: destructor_armed Let_def log_line_def)

lemma count_inserts_destructor:
  "count_inserts (calls (destructor E this w)) = count_inserts (calls w)"
  by (cases "m_opCtx this")
     (simp_all add: destructor_disarmed calls_destructor_armed count_inserts_def remove_call_def)

lemma loop_exit:
  "\<not> retry < kDuplicateKeyErrorMaxRetries \<Longrightarrow>
     writeMigration_loop E c mi nss mt retry w = (Inr (Inl (max_retries_status E mi nss)), w)"
  by (subst writeMigration_loop.simps) simp

lemma finish_ok:
  "isOK result \<Longrightarrow>
     writeMigration_finish E c nss mi result w =
       (Inr (Inr \<lparr>m_opCtx = Some c, m_nss = nss, m_minKey = minKey mi\<rparr>), w)"
  by (simp add: writeMigration_finish_def return_moved_def move_members_def
      ScopedMigrationRequest_ctor_def destructor_def Let_def)

lemma finish_error:
  "\<not> isOK result \<Longrightarrow>
     writeMigration_finish E c nss mi result w =
       (Inr (Inl result),
        destructor E \<lparr>m_opCtx = Some c, m_nss = nss, m_minKey = minKey mi\<rparr> w)"
  by (simp add: writeMigration_finish_def ScopedMigrationRequest_ctor_def Let_def)

lemma finish_handle:
  "writeMigration_finish E c nss mi result w = (Inr (Inr this), w') \<Longrightarrow> m_opCtx this = Some c"
  by (cases "isOK result") (auto simp: finish_ok finish_error)

lemma count_inserts_finish:
  "count_inserts (calls (snd (writeMigration_finish E c nss mi result w))) = count_inserts (calls w)"
  by (cases "isOK result") (simp_all add: finish_ok finish_error count_inserts_destructor)

lemma loop_retry:
  assumes "retry < kDuplicateKeyErrorMaxRetries"
    and "code (insert_reply E (calls w @ [insert_call E c mt])) = DuplicateKey"
    and "find_reply E (calls w @ [insert_call E c mt, find_call E c mi nss]) = Inr []"
  shows "writeMigration_loop E c mi nss mt retry w =
           writeMigration_loop E c mi nss mt (retry + 1)
             (w\<lparr>calls := calls w @ [insert_call E c mt, find_call E c mi nss]\<rparr>)"
  using assms
  by (subst writeMigration_loop.simps)
     (simp add: insertConfigDocument_def exhaustiveFindOnConfig_def insert_call_def
        find_call_def Let_def)

lemma loop_after_retries:
  "after_retries E c mi nss mt w n = Some w' \<Longrightarrow> n \<le> kDuplicateKeyErrorMaxRetries \<Longrightarrow>
     writeMigration_loop E c mi nss mt 0 w = writeMigration_loop E c mi nss mt n w'"
proof (induction n arbitrary: w')
  case 0
  then show ?case by simp
next
  case (Suc n)
  from Suc.prems(1) obtain w1 where
    w1: "after_retries E c mi nss mt w n = Some w1"
    and dup: "code (insert_reply E (calls w1 @ [insert_call E c mt])) = DuplicateKey"
    and none: "find_reply E (calls w1 @ [insert_call E c mt, find_call E c mi nss]) = Inr []"
    and w': "w' = w1\<lparr>calls := calls w1 @ [insert_call E c mt, find_call E c mi nss]\<rparr>"
    by (auto split: option.splits if_splits)
  from Suc.prems(2) have n: "n < kDuplicateKeyErrorMaxRetries" "n \<le> kDuplicateKeyErrorMaxRetries"
    by simp_all
  have "writeMigration_loop E c mi nss mt 0 w = writeMigration_loop E c mi nss mt n w1"
    using Suc.IH [OF w1 n(2)] .
  also have "\<dots> = writeMigration_loop E c mi nss mt (n + 1) w'"
    unfolding w' using loop_retry [OF n(1) dup none] .
  finally show ?case by simp
qed

lemma count_inserts_after_retries:
  "after_retries E c mi nss mt w n = Some w' \<Longrightarrow>
     count_inserts (calls w') = count_inserts (calls w) + n"
proof (induction n arbitrary: w')
  case 0
  then show ?case by simp
next
  case (Suc n)
  then show ?case
    by (auto simp: count_inserts_def insert_call_def find_call_def
        split: option.splits if_splits)
qed

lemma loop_count_inserts:
  "count_inserts (calls (snd (writeMigration_loop E c mi nss mt retry w)))
     \<le> count_inserts (calls w) + (kDuplicateKeyErrorMaxRetries - retry)"
proof (induction "kDuplicateKeyErrorMaxRetries - retry" arbitrary: retry w)
  case 0
  then have "\<not> retry < kDuplicateKeyErrorMaxRetries" by simp
  then show ?case by (simp add: loop_exit)
next
  case (Suc n)
  then have lt: "retry < kDuplicateKeyErrorMaxRetries"
    and n: "n = kDuplicateKeyErrorMaxRetries - (retry + 1)" by simp_all
  let ?w1 = "w\<lparr>calls := calls w @ [insert_call E c mt]\<rparr>"
  let ?w2 = "w\<lparr>calls := calls w @ [insert_call E c mt, find_call E c mi nss]\<rparr>"
  have c1: "count_inserts (calls ?w1) = count_inserts (calls w) + 1"
    by (simp add: count_inserts_def insert_call_def)
  have c2: "count_inserts (calls ?w2) = count_inserts (calls w) + 1"
    by (simp add: count_inserts_def insert_call_def find_call_def)
  have IH: "count_inserts (calls (snd (writeMigration_loop E c mi nss mt (retry + 1) ?w2)))
              \<le> count_inserts (calls ?w2) + n"
    using Suc.hyps(1) [OF n, of ?w2] n by simp
  have k: "kDuplicateKeyErrorMaxRetries - retry = Suc n" using Suc.hyps(2) by simp
  show ?case
    unfolding k
    apply (subst writeMigration_loop.simps)
    using lt IH c1 c2
    apply (simp add: insertConfigDocument_def exhaustiveFindOnConfig_def Let_def
        insert_call_def [symmetric] find_call_def [symmetric] log_line_def
        count_inserts_finish split: sum.splits list.splits)
    done
qed

lemma loop_handle_armed:
  "writeMigration_loop E c mi nss mt retry w = (Inr (Inr this), w') \<Longrightarrow> m_opCtx this = Some c"
proof (induction "kDuplicateKeyErrorMaxRetries - retry" arbitrary: retry w)
  case 0
  then have "\<not> retry < kDuplicateKeyErrorMaxRetries" by simp
  with 0 show ?case by (simp add: loop_exit)
next
  case (Suc n)
  then have lt: "retry < kDuplicateKeyErrorMaxRetries"
    and n: "n = kDuplicateKeyErrorMaxRetries - (retry + 1)" by simp_all
  from Suc.prems show ?case
    apply (subst (asm) writeMigration_loop.simps)
    using lt Suc.hyps(1) [OF n]
    apply (auto simp add: insertConfigDocument_def exhaustiveFindOnConfig_def Let_def
        split: sum.splits list.splits if_splits dest: finish_handle)
    done
qed

lemma writeMigration_handle_armed:
  "writeMigration E opCtx mi wfd w0 = (Inr (Inr this), w) \<Longrightarrow> m_opCtx this \<noteq> None"
  by (auto simp: writeMigration_def split: option.splits sum.splits dest: loop_handle_armed)

lemma try_armed:
  assumes "m_opCtx this = Some c"
  shows "tryToRemoveMigration E this w =
           Inr (remove_reply E (calls w @ [remove_call E c (m_nss this) (m_minKey this)]),
                (if isOK (remove_reply E (calls w @ [remove_call E c (m_nss this) (m_minKey this)]))
                 then this\<lparr>m_opCtx := None\<rparr> else this),
                w\<lparr>calls := calls w @ [remove_call E c (m_nss this) (m_minKey this)]\<rparr>)"
  using assms
  by (simp add: tryToRemoveMigration_def removeConfigDocuments_def remove_call_def
      migrationDocumentIdentifier_def Let_def)

lemma example_env_sel [simp]:
  "insert_reply (example_env ins rem fnd) = ins"
  "remove_reply (example_env ins rem fnd) = rem"
  "find_reply (example_env ins rem fnd) = fnd"
  "ConfigNS (example_env ins rem fnd) = ''config.migrations''"
  "ns_field (example_env ins rem fnd) = ''ns''"
  "min_field (example_env ins rem fnd) = ''min''"
  "getNss (example_env ins rem fnd) c mi = Inr (uuid mi)"
  "toBSON (example_env ins rem fnd) = example_toBSON"
  "fromBSON (example_env ins rem fnd) = example_fromBSON"
  "toMigrateInfo (example_env ins rem fnd) c (MigrationType nss mi waitForDelete) = mi"
  "getMigrationTypeQuery (example_env ins rem fnd) mi nss =
     [(''ns'', BSONString nss), (''min'', BSONObject (minKey mi))]"
  "MigrateInfo_toString (example_env ins rem fnd) = example_toString"
  "redact (example_env ins rem fnd) str = str"
  "redact_status (example_env ins rem fnd) = reason"
  by (simp_all add: example_env_def)

subsection \<open>Scope end\<close>

text \<open>
  C6. When the scope of an Armed handle ends, the destructor issues exactly one call to the
  store: a removal of the document with the handle's namespace and minKey in config.migrations,
  under the majority write concern. A reply that is not OK adds log line 21900 and nothing
  else: the destructor's result is the world, there is no status in it that a caller could
  see. The destructor of a Disarmed handle leaves the world as it was.
\<close>

theorem destructor_best_effort_delete:
  "(m_opCtx this = Some c \<longrightarrow>
      calls (destructor E this w) = calls w @ [remove_call E c (m_nss this) (m_minKey this)]
      \<and> logged (destructor E this w) =
          logged w @
            (if isOK (remove_reply E (calls w @ [remove_call E c (m_nss this) (m_minKey this)]))
             then []
             else [LOGV2 21900 ''Failed to remove config.migrations document for migration''
                    [(''migration'', AttrBSON (migrationDocumentIdentifier E this)),
                     (''error'', AttrString (redact_status E
                        (remove_reply E
                           (calls w @ [remove_call E c (m_nss this) (m_minKey this)]))))]]))
   \<and> (m_opCtx this = None \<longrightarrow> destructor E this w = w)"
  by (simp add: destructor_armed destructor_disarmed Let_def log_line_def)

theorem destructor_best_effort_delete_witness:
  "m_opCtx handle1 = Some ctx1
   \<and> calls (destructor store_remove_fails handle1 world0) =
       [RemoveConfigDocuments ctx1 ''config.migrations''
          [(''ns'', BSONString ''db.coll''), (''min'', BSONObject [(''x'', BSONInt 10)])]
          kMajorityWriteConcern]
   \<and> logged (destructor store_remove_fails handle1 world0) =
       [LOGV2 21900 ''Failed to remove config.migrations document for migration''
          [(''migration'', AttrBSON [(''ns'', BSONString ''db.coll''),
                                     (''min'', BSONObject [(''x'', BSONInt 10)])]),
           (''error'', AttrString ''not primary'')]]
   \<and> m_opCtx (handle1\<lparr>m_opCtx := None\<rparr>) = None
   \<and> destructor store_remove_fails (handle1\<lparr>m_opCtx := None\<rparr>) world0 = world0"
  using destructor_best_effort_delete [of handle1 ctx1 store_remove_fails world0]
    destructor_best_effort_delete [of "handle1\<lparr>m_opCtx := None\<rparr>" ctx1 store_remove_fails world0]
  by (simp add: handle1_def world0_def store_remove_fails_def remove_call_def
      migrationDocumentIdentifier_def not_primary_def isOK_def)

subsection \<open>tryToRemoveMigration\<close>

text \<open>
  C7. On an Armed handle \<open>tryToRemoveMigration\<close> issues one removal of the handle's document
  under the majority write concern and returns the store's reply. If the reply is OK the
  handle comes back Disarmed. If it is not, the handle comes back as it was, namespace,
  minKey and context, and the destructor that runs later on it issues the removal again.
\<close>

theorem tryToRemoveMigration_armed:
  assumes "m_opCtx this = Some c"
  shows "(let r = remove_call E c (m_nss this) (m_minKey this);
              st = remove_reply E (calls w @ [r]);
              w1 = w\<lparr>calls := calls w @ [r]\<rparr>
          in (isOK st \<longrightarrow>
                tryToRemoveMigration E this w = Inr (st, this\<lparr>m_opCtx := None\<rparr>, w1)
                \<and> destructor E (this\<lparr>m_opCtx := None\<rparr>) w1 = w1)
           \<and> (\<not> isOK st \<longrightarrow>
                tryToRemoveMigration E this w = Inr (st, this, w1)
                \<and> calls (destructor E this w1) = calls w1 @ [r]))"
  using assms
  by (simp add: Let_def try_armed destructor_disarmed calls_destructor_armed)

theorem tryToRemoveMigration_armed_witness:
  "m_opCtx handle1 = Some ctx1
   \<and> tryToRemoveMigration store_remove_fails handle1 world0 =
       Inr (Status (OtherError 10107) ''not primary'', handle1,
            \<lparr>calls = [remove_call store_remove_fails ctx1 ''db.coll'' [(''x'', BSONInt 10)]],
             logged = []\<rparr>)
   \<and> tryToRemoveMigration store_insert_fails handle1 world0 =
       Inr (Status OK [], handle1\<lparr>m_opCtx := None\<rparr>,
            \<lparr>calls = [remove_call store_insert_fails ctx1 ''db.coll'' [(''x'', BSONInt 10)]],
             logged = []\<rparr>)"
  using tryToRemoveMigration_armed [of handle1 ctx1 store_remove_fails world0]
    tryToRemoveMigration_armed [of handle1 ctx1 store_insert_fails world0]
  by (simp add: Let_def handle1_def world0_def store_remove_fails_def store_insert_fails_def
      not_primary_def isOK_def Status_OK_def remove_call_def)

subsection \<open>createForRecovery\<close>

text \<open>
  C8. \<open>createForRecovery\<close> neither takes nor returns the world: it makes no call to the store.
  Given an operation context it returns the Armed handle for (namespace, minKey), and when
  the scope of that handle ends at once the trace grows by exactly one call, the removal
  of the document for (namespace, minKey); no find precedes it.
\<close>

theorem createForRecovery_then_scope_end:
  "createForRecovery (Some c) nss mk = \<lparr>m_opCtx = Some c, m_nss = nss, m_minKey = mk\<rparr>
   \<and> calls (destructor E (createForRecovery (Some c) nss mk) w) =
       calls w @ [remove_call E c nss mk]"
  by (simp add: createForRecovery_def ScopedMigrationRequest_ctor_def calls_destructor_armed)

theorem createForRecovery_then_scope_end_witness:
  "createForRecovery (Some ctx1) ''db.coll'' [(''x'', BSONInt 10)] = handle1
   \<and> calls (destructor store_remove_fails
        (createForRecovery (Some ctx1) ''db.coll'' [(''x'', BSONInt 10)]) world0) =
       [RemoveConfigDocuments ctx1 ''config.migrations''
          [(''ns'', BSONString ''db.coll''), (''min'', BSONObject [(''x'', BSONInt 10)])]
          kMajorityWriteConcern]"
  using createForRecovery_then_scope_end
    [of ctx1 "''db.coll''" "[(''x'', BSONInt 10)]" store_remove_fails world0]
  by (auto simp add: handle1_def world0_def store_remove_fails_def remove_call_def)

subsection \<open>Moves\<close>

text \<open>
  C10. Move-assigning a handle to itself changes nothing: the heap is the one before, so
  the handle keeps its namespace, its minKey and its context pointer (an Armed handle stays
  Armed), and its destructor does what it would have done.
\<close>

theorem self_move_assignment_noop:
  "operator_assign a a h = h
   \<and> m_opCtx (operator_assign a a h a) = m_opCtx (h a)
   \<and> destructor_at E a (operator_assign a a h) w = destructor_at E a h w"
  by (simp add: operator_assign_def)

theorem self_move_assignment_noop_witness:
  "m_opCtx (operator_assign 0 0 heap1 0) = Some ctx1
   \<and> m_nss (operator_assign 0 0 heap1 0) = ''db.coll''
   \<and> m_minKey (operator_assign 0 0 heap1 0) = [(''x'', BSONInt 10)]"
  using self_move_assignment_noop [of 0 heap1]
  by (simp add: heap1_def handle1_def)

text \<open>
  C4. A move between two different objects, by assignment or by construction, gives the
  destination the source's namespace, minKey and context pointer (and with the pointer the
  state Armed or Disarmed) and leaves the source with a null pointer, whatever it held.
  Afterwards the destructor of the source changes nothing, and the destructor of the
  destination does what the destructor of the source would have done before the move.
\<close>

theorem move_transfers_obligation:
  assumes "this \<noteq> other"
  shows "m_opCtx (operator_assign this other h this) = m_opCtx (h other)
       \<and> m_nss (operator_assign this other h this) = m_nss (h other)
       \<and> m_minKey (operator_assign this other h this) = m_minKey (h other)
       \<and> m_opCtx (operator_assign this other h other) = None
       \<and> destructor_at E other (operator_assign this other h) w = w
       \<and> destructor_at E this (operator_assign this other h) w = destructor_at E other h w
       \<and> move_constructor this other h = operator_assign this other h"
  using assms
  by (simp add: operator_assign_def move_members_def move_constructor_def destructor_at_def
      destructor_def migrationDocumentIdentifier_def Let_def split: option.splits)

theorem move_transfers_obligation_witness:
  "(1::nat) \<noteq> 0
   \<and> m_opCtx (operator_assign 1 0 heap1 1) = Some ctx1
   \<and> m_nss (operator_assign 1 0 heap1 1) = ''db.coll''
   \<and> m_minKey (operator_assign 1 0 heap1 1) = [(''x'', BSONInt 10)]
   \<and> m_opCtx (operator_assign 1 0 heap1 0) = None
   \<and> destructor_at store_remove_fails 0 (operator_assign 1 0 heap1) world0 = world0
   \<and> destructor_at store_remove_fails 1 (operator_assign 1 0 heap1) world0
       = destructor_at store_remove_fails 0 heap1 world0
   \<and> move_constructor 1 0 heap1 = operator_assign 1 0 heap1"
  using move_transfers_obligation [of 1 0 heap1 store_remove_fails world0]
  by (simp add: heap1_def handle1_def)

subsection \<open>One round of the loop\<close>

text \<open>
  \<open>writeMigration\<close> with a context and a namespace that resolves is the loop entered at
  \<open>retry = 0\<close>; after \<open>n\<close> rounds that found nothing it stands at \<open>retry = n\<close>. The three
  lemmas after that say what one round returns in the cases the claims are about.
\<close>

lemma writeMigration_enters_loop:
  assumes "getNss E c mi = Inr nss"
    and "after_retries E c mi nss (MigrationType nss mi wfd) w n = Some w1"
    and "n \<le> kDuplicateKeyErrorMaxRetries"
  shows "writeMigration E (Some c) mi wfd w =
           writeMigration_loop E c mi nss (MigrationType nss mi wfd) n w1"
  using assms by (simp add: writeMigration_def loop_after_retries)

lemma loop_join:
  assumes "retry < kDuplicateKeyErrorMaxRetries"
    and "code (insert_reply E (calls w @ [insert_call E c mt])) = DuplicateKey"
    and "find_reply E (calls w @ [insert_call E c mt, find_call E c mi nss]) = Inr [doc]"
    and "fromBSON E doc = Inr active"
    and "from_shard (toMigrateInfo E c active) = from_shard mi"
    and "to_shard (toMigrateInfo E c active) = to_shard mi"
  shows "writeMigration_loop E c mi nss mt retry w =
           (Inr (Inr \<lparr>m_opCtx = Some c, m_nss = nss, m_minKey = minKey mi\<rparr>),
            w\<lparr>calls := calls w @ [insert_call E c mt, find_call E c mi nss]\<rparr>)"
  using assms
  by (subst writeMigration_loop.simps)
     (simp add: insertConfigDocument_def exhaustiveFindOnConfig_def insert_call_def
        find_call_def Let_def finish_ok isOK_def Status_OK_def)

lemma loop_conflict:
  assumes "retry < kDuplicateKeyErrorMaxRetries"
    and "code (insert_reply E (calls w @ [insert_call E c mt])) = DuplicateKey"
    and "find_reply E (calls w @ [insert_call E c mt, find_call E c mi nss]) = Inr [doc]"
    and "fromBSON E doc = Inr active"
    and "from_shard (toMigrateInfo E c active) \<noteq> from_shard mi
         \<or> to_shard (toMigrateInfo E c active) \<noteq> to_shard mi"
  shows "writeMigration_loop E c mi nss mt retry w =
           (Inr (Inl (insert_reply E (calls w @ [insert_call E c mt]))),
            \<lparr>calls = calls w @ [insert_call E c mt, find_call E c mi nss],
             logged = logged w @
               [LOGV2 21901
                  ''Failed to write document to config.migrations because there is already an active migration for that chunk''
                  [(''newMigration'', AttrString (redact E (MigrateInfo_toString E mi))),
                   (''activeMigration'',
                      AttrString (redact E (MigrateInfo_toString E (toMigrateInfo E c active)))),
                   (''error'', AttrString (redact_status E
                      (insert_reply E (calls w @ [insert_call E c mt]))))]]\<rparr>)"
  using assms
  by (subst writeMigration_loop.simps)
     (auto simp add: insertConfigDocument_def exhaustiveFindOnConfig_def insert_call_def
        find_call_def Let_def log_line_def)

lemma loop_insert_error:
  assumes "retry < kDuplicateKeyErrorMaxRetries"
    and "code (insert_reply E (calls w @ [insert_call E c mt])) \<noteq> DuplicateKey"
    and "\<not> isOK (insert_reply E (calls w @ [insert_call E c mt]))"
  shows "writeMigration_loop E c mi nss mt retry w =
           (Inr (Inl (insert_reply E (calls w @ [insert_call E c mt]))),
            destructor E \<lparr>m_opCtx = Some c, m_nss = nss, m_minKey = minKey mi\<rparr>
              (w\<lparr>calls := calls w @ [insert_call E c mt]\<rparr>))"
  using assms
  by (subst writeMigration_loop.simps)
     (simp add: insertConfigDocument_def insert_call_def Let_def finish_error)

subsection \<open>Joining the active migration\<close>

text \<open>
  C5. In any round of \<open>writeMigration\<close> (the first, or one reached after rounds that met a
  conflict and found no document), if the insert answers \<open>DuplicateKey\<close> and the find
  returns exactly one document that parses to a migration with the same \<open>from\<close> and \<open>to\<close>
  as the requested one, the call returns a handle, Armed with the caller's context, for the
  resolved namespace and the requested minKey. The round made two calls, the insert and the
  find, and no removal.
\<close>

theorem writeMigration_joins_active_migration:
  assumes "getNss E c migrateInfo = Inr nss"
    and "n < kDuplicateKeyErrorMaxRetries"
    and "after_retries E c migrateInfo nss (MigrationType nss migrateInfo waitForDelete) w n
           = Some w1"
    and "code (insert_reply E
           (calls w1 @ [insert_call E c (MigrationType nss migrateInfo waitForDelete)]))
           = DuplicateKey"
    and "find_reply E
           (calls w1 @ [insert_call E c (MigrationType nss migrateInfo waitForDelete),
                        find_call E c migrateInfo nss]) = Inr [doc]"
    and "fromBSON E doc = Inr active"
    and "from_shard (toMigrateInfo E c active) = from_shard migrateInfo"
    and "to_shard (toMigrateInfo E c active) = to_shard migrateInfo"
  shows "writeMigration E (Some c) migrateInfo waitForDelete w =
           (Inr (Inr \<lparr>m_opCtx = Some c, m_nss = nss, m_minKey = minKey migrateInfo\<rparr>),
            w1\<lparr>calls := calls w1 @ [insert_call E c (MigrationType nss migrateInfo waitForDelete),
                                   find_call E c migrateInfo nss]\<rparr>)"
proof -
  from assms(2) have "n \<le> kDuplicateKeyErrorMaxRetries" by simp
  from writeMigration_enters_loop [OF assms(1) assms(3) this]
    loop_join [OF assms(2) assms(4) assms(5) assms(6) assms(7) assms(8)]
  show ?thesis by simp
qed


theorem writeMigration_joins_active_migration_witness:
  "getNss store_active_S1_S2 ctx1 move_S1_S2 = Inr ''db.coll''
   \<and> (0::nat) < kDuplicateKeyErrorMaxRetries
   \<and> code (insert_reply store_active_S1_S2
        (calls world0 @ [insert_call store_active_S1_S2 ctx1 (MigrationType ''db.coll'' move_S1_S2 False)]))
       = DuplicateKey
   \<and> find_reply store_active_S1_S2
        (calls world0 @ [insert_call store_active_S1_S2 ctx1 (MigrationType ''db.coll'' move_S1_S2 False),
                         find_call store_active_S1_S2 ctx1 move_S1_S2 ''db.coll''])
       = Inr [example_toBSON migration_S1_S2]
   \<and> fromBSON store_active_S1_S2 (example_toBSON migration_S1_S2) = Inr migration_S1_S2
   \<and> toMigrateInfo store_active_S1_S2 ctx1 migration_S1_S2 = move_S1_S2
   \<and> writeMigration store_active_S1_S2 (Some ctx1) move_S1_S2 False world0 =
       (Inr (Inr handle1),
        \<lparr>calls = [insert_call store_active_S1_S2 ctx1 migration_S1_S2,
                  find_call store_active_S1_S2 ctx1 move_S1_S2 ''db.coll''],
         logged = []\<rparr>)"
proof -
  have h1: "getNss store_active_S1_S2 ctx1 move_S1_S2 = Inr ''db.coll''"
    by (simp add: store_active_S1_S2_def move_S1_S2_def)
  have h2: "(0::nat) < kDuplicateKeyErrorMaxRetries"
    by (simp add: kDuplicateKeyErrorMaxRetries_def)
  have h3: "after_retries store_active_S1_S2 ctx1 move_S1_S2 ''db.coll''
              (MigrationType ''db.coll'' move_S1_S2 False) world0 0 = Some world0"
    by simp
  have h4: "code (insert_reply store_active_S1_S2
              (calls world0 @ [insert_call store_active_S1_S2 ctx1
                                 (MigrationType ''db.coll'' move_S1_S2 False)])) = DuplicateKey"
    by (simp add: store_active_S1_S2_def dup_key_def)
  have h5: "find_reply store_active_S1_S2
              (calls world0 @ [insert_call store_active_S1_S2 ctx1
                                 (MigrationType ''db.coll'' move_S1_S2 False),
                               find_call store_active_S1_S2 ctx1 move_S1_S2 ''db.coll''])
              = Inr [example_toBSON migration_S1_S2]"
    by (simp add: store_active_S1_S2_def)
  have h6: "fromBSON store_active_S1_S2 (example_toBSON migration_S1_S2) = Inr migration_S1_S2"
    by (simp add: store_active_S1_S2_def move_S1_S2_def migration_S1_S2_def
        example_toBSON_def example_fromBSON_def)
  have h7: "toMigrateInfo store_active_S1_S2 ctx1 migration_S1_S2 = move_S1_S2"
    by (simp add: store_active_S1_S2_def migration_S1_S2_def)
  have h8: "from_shard (toMigrateInfo store_active_S1_S2 ctx1 migration_S1_S2) = from_shard move_S1_S2"
    and h9: "to_shard (toMigrateInfo store_active_S1_S2 ctx1 migration_S1_S2) = to_shard move_S1_S2"
    by (simp_all add: h7)
  note run = writeMigration_joins_active_migration [OF h1 h2 h3 h4 h5 h6 h8 h9]
  have "writeMigration store_active_S1_S2 (Some ctx1) move_S1_S2 False world0 =
       (Inr (Inr handle1),
        \<lparr>calls = [insert_call store_active_S1_S2 ctx1 migration_S1_S2,
                  find_call store_active_S1_S2 ctx1 move_S1_S2 ''db.coll''],
         logged = []\<rparr>)"
    unfolding run by (simp add: handle1_def world0_def move_S1_S2_def migration_S1_S2_def)
  with h1 h2 h4 h5 h6 h7 show ?thesis by blast
qed

subsection \<open>A different migration is active\<close>

text \<open>
  The claim C2 as it is written asks for a returned status that describes the requested and
  the active migration. The file returns \<open>result\<close>, the status of the insert, as the store
  gave it. Here S1 to S2 is active and S1 to S3 is requested: what the caller gets is the
  store's \<open>DuplicateKey\<close> with the store's reason, which names neither of the two.
\<close>

theorem writeMigration_conflict_status_is_the_stores:
  "fst (writeMigration store_active_S1_S2 (Some ctx1) move_S1_S3 False world0)
     = Inr (Inl (Status DuplicateKey ''E11000 duplicate key error''))
   \<and> \<not> describes store_active_S1_S2 (Status DuplicateKey ''E11000 duplicate key error'') move_S1_S3
   \<and> \<not> describes store_active_S1_S2 (Status DuplicateKey ''E11000 duplicate key error'') move_S1_S2"
  by code_simp

text \<open>
  C2, amended. In any round of \<open>writeMigration\<close>, if the insert answers \<open>DuplicateKey\<close> and
  the find returns exactly one document that parses to a migration whose \<open>from\<close> or \<open>to\<close>
  differs from the requested one, the call returns the status of the insert unchanged and
  no handle; the requested and the active migration are written to log line 21901, and
  the round made the insert and the find and no removal.
\<close>

theorem writeMigration_conflict_returns_insert_status:
  assumes "getNss E c migrateInfo = Inr nss"
    and "n < kDuplicateKeyErrorMaxRetries"
    and "after_retries E c migrateInfo nss (MigrationType nss migrateInfo waitForDelete) w n
           = Some w1"
    and "code (insert_reply E
           (calls w1 @ [insert_call E c (MigrationType nss migrateInfo waitForDelete)]))
           = DuplicateKey"
    and "find_reply E
           (calls w1 @ [insert_call E c (MigrationType nss migrateInfo waitForDelete),
                        find_call E c migrateInfo nss]) = Inr [doc]"
    and "fromBSON E doc = Inr active"
    and "from_shard (toMigrateInfo E c active) \<noteq> from_shard migrateInfo
         \<or> to_shard (toMigrateInfo E c active) \<noteq> to_shard migrateInfo"
  shows "writeMigration E (Some c) migrateInfo waitForDelete w =
           (Inr (Inl (insert_reply E
              (calls w1 @ [insert_call E c (MigrationType nss migrateInfo waitForDelete)]))),
            \<lparr>calls = calls w1 @ [insert_call E c (MigrationType nss migrateInfo waitForDelete),
                                 find_call E c migrateInfo nss],
             logged = logged w1 @
               [LOGV2 21901
                  ''Failed to write document to config.migrations because there is already an active migration for that chunk''
                  [(''newMigration'', AttrString (redact E (MigrateInfo_toString E migrateInfo))),
                   (''activeMigration'',
                      AttrString (redact E (MigrateInfo_toString E (toMigrateInfo E c active)))),
                   (''error'', AttrString (redact_status E
                      (insert_reply E
                         (calls w1 @ [insert_call E c
                                        (MigrationType nss migrateInfo waitForDelete)]))))]]\<rparr>)"
proof -
  from assms(2) have "n \<le> kDuplicateKeyErrorMaxRetries" by simp
  from writeMigration_enters_loop [OF assms(1) assms(3) this]
    loop_conflict [OF assms(2) assms(4) assms(5) assms(6) assms(7)]
  show ?thesis by simp
qed

theorem writeMigration_conflict_returns_insert_status_witness:
  "getNss store_active_S1_S2 ctx1 move_S1_S3 = Inr ''db.coll''
   \<and> fromBSON store_active_S1_S2 (example_toBSON migration_S1_S2) = Inr migration_S1_S2
   \<and> to_shard (toMigrateInfo store_active_S1_S2 ctx1 migration_S1_S2) \<noteq> to_shard move_S1_S3
   \<and> writeMigration store_active_S1_S2 (Some ctx1) move_S1_S3 False world0 =
       (Inr (Inl (Status DuplicateKey ''E11000 duplicate key error'')),
        \<lparr>calls = [insert_call store_active_S1_S2 ctx1 (MigrationType ''db.coll'' move_S1_S3 False),
                  find_call store_active_S1_S2 ctx1 move_S1_S3 ''db.coll''],
         logged =
           [LOGV2 21901
              ''Failed to write document to config.migrations because there is already an active migration for that chunk''
              [(''newMigration'', AttrString ''db.coll: from S1, to S3''),
               (''activeMigration'', AttrString ''db.coll: from S1, to S2''),
               (''error'', AttrString ''E11000 duplicate key error'')]]\<rparr>)"
proof -
  have h1: "getNss store_active_S1_S2 ctx1 move_S1_S3 = Inr ''db.coll''"
    by (simp add: store_active_S1_S2_def move_S1_S3_def)
  have h2: "(0::nat) < kDuplicateKeyErrorMaxRetries"
    by (simp add: kDuplicateKeyErrorMaxRetries_def)
  have h3: "after_retries store_active_S1_S2 ctx1 move_S1_S3 ''db.coll''
              (MigrationType ''db.coll'' move_S1_S3 False) world0 0 = Some world0"
    by simp
  have h4: "code (insert_reply store_active_S1_S2
              (calls world0 @ [insert_call store_active_S1_S2 ctx1
                                 (MigrationType ''db.coll'' move_S1_S3 False)])) = DuplicateKey"
    by (simp add: store_active_S1_S2_def dup_key_def)
  have h5: "find_reply store_active_S1_S2
              (calls world0 @ [insert_call store_active_S1_S2 ctx1
                                 (MigrationType ''db.coll'' move_S1_S3 False),
                               find_call store_active_S1_S2 ctx1 move_S1_S3 ''db.coll''])
              = Inr [example_toBSON migration_S1_S2]"
    by (simp add: store_active_S1_S2_def)
  have h6: "fromBSON store_active_S1_S2 (example_toBSON migration_S1_S2) = Inr migration_S1_S2"
    by (simp add: store_active_S1_S2_def move_S1_S2_def migration_S1_S2_def
        example_toBSON_def example_fromBSON_def)
  have h7: "to_shard (toMigrateInfo store_active_S1_S2 ctx1 migration_S1_S2) \<noteq> to_shard move_S1_S3"
    by (simp add: store_active_S1_S2_def migration_S1_S2_def move_S1_S2_def move_S1_S3_def)
  then have h8: "from_shard (toMigrateInfo store_active_S1_S2 ctx1 migration_S1_S2)
                   \<noteq> from_shard move_S1_S3
                 \<or> to_shard (toMigrateInfo store_active_S1_S2 ctx1 migration_S1_S2)
                   \<noteq> to_shard move_S1_S3"
    by simp
  note run = writeMigration_conflict_returns_insert_status [OF h1 h2 h3 h4 h5 h6 h8]
  have "writeMigration store_active_S1_S2 (Some ctx1) move_S1_S3 False world0 =
       (Inr (Inl (Status DuplicateKey ''E11000 duplicate key error'')),
        \<lparr>calls = [insert_call store_active_S1_S2 ctx1 (MigrationType ''db.coll'' move_S1_S3 False),
                  find_call store_active_S1_S2 ctx1 move_S1_S3 ''db.coll''],
         logged =
           [LOGV2 21901
              ''Failed to write document to config.migrations because there is already an active migration for that chunk''
              [(''newMigration'', AttrString ''db.coll: from S1, to S3''),
               (''activeMigration'', AttrString ''db.coll: from S1, to S2''),
               (''error'', AttrString ''E11000 duplicate key error'')]]\<rparr>)"
    unfolding run
    by (simp add: world0_def store_active_S1_S2_def dup_key_def example_toString_def
        migration_S1_S2_def move_S1_S2_def move_S1_S3_def)
  with h1 h6 h7 show ?thesis by blast
qed

subsection \<open>An insert that fails for another reason\<close>

text \<open>
  C9. In any round of \<open>writeMigration\<close>, if the insert answers with an error other than
  \<open>DuplicateKey\<close>, the local object is built and destroyed before the function returns: the
  trace ends with the insert followed by one removal of the document for (nss, minKey).
  The status returned is the one of the insert, whatever the removal answered.
\<close>

theorem writeMigration_failed_insert_cleans_up:
  assumes "getNss E c migrateInfo = Inr nss"
    and "n < kDuplicateKeyErrorMaxRetries"
    and "after_retries E c migrateInfo nss (MigrationType nss migrateInfo waitForDelete) w n
           = Some w1"
    and "code (insert_reply E
           (calls w1 @ [insert_call E c (MigrationType nss migrateInfo waitForDelete)]))
           \<noteq> DuplicateKey"
    and "\<not> isOK (insert_reply E
           (calls w1 @ [insert_call E c (MigrationType nss migrateInfo waitForDelete)]))"
  shows "fst (writeMigration E (Some c) migrateInfo waitForDelete w) =
           Inr (Inl (insert_reply E
             (calls w1 @ [insert_call E c (MigrationType nss migrateInfo waitForDelete)])))
       \<and> calls (snd (writeMigration E (Some c) migrateInfo waitForDelete w)) =
           calls w1 @ [insert_call E c (MigrationType nss migrateInfo waitForDelete),
                       remove_call E c nss (minKey migrateInfo)]"
proof -
  from assms(2) have "n \<le> kDuplicateKeyErrorMaxRetries" by simp
  from writeMigration_enters_loop [OF assms(1) assms(3) this]
    loop_insert_error [OF assms(2) assms(4) assms(5)]
  show ?thesis by (simp add: calls_destructor_armed)
qed

theorem writeMigration_failed_insert_cleans_up_witness:
  "getNss store_insert_fails ctx1 move_S1_S2 = Inr ''db.coll''
   \<and> insert_reply store_insert_fails
        (calls world0 @ [insert_call store_insert_fails ctx1 (MigrationType ''db.coll'' move_S1_S2 False)])
       = Status (OtherError 10107) ''not primary''
   \<and> fst (writeMigration store_insert_fails (Some ctx1) move_S1_S2 False world0) =
       Inr (Inl (Status (OtherError 10107) ''not primary''))
   \<and> calls (snd (writeMigration store_insert_fails (Some ctx1) move_S1_S2 False world0)) =
       [insert_call store_insert_fails ctx1 (MigrationType ''db.coll'' move_S1_S2 False),
        RemoveConfigDocuments ctx1 ''config.migrations''
          [(''ns'', BSONString ''db.coll''), (''min'', BSONObject [(''x'', BSONInt 10)])]
          kMajorityWriteConcern]"
proof -
  have h1: "getNss store_insert_fails ctx1 move_S1_S2 = Inr ''db.coll''"
    by (simp add: store_insert_fails_def move_S1_S2_def)
  have h2: "(0::nat) < kDuplicateKeyErrorMaxRetries"
    by (simp add: kDuplicateKeyErrorMaxRetries_def)
  have h3: "after_retries store_insert_fails ctx1 move_S1_S2 ''db.coll''
              (MigrationType ''db.coll'' move_S1_S2 False) world0 0 = Some world0"
    by simp
  have r: "insert_reply store_insert_fails
             (calls world0 @ [insert_call store_insert_fails ctx1
                                (MigrationType ''db.coll'' move_S1_S2 False)])
             = Status (OtherError 10107) ''not primary''"
    by (simp add: store_insert_fails_def not_primary_def)
  have h4: "code (insert_reply store_insert_fails
              (calls world0 @ [insert_call store_insert_fails ctx1
                                 (MigrationType ''db.coll'' move_S1_S2 False)])) \<noteq> DuplicateKey"
    and h5: "\<not> isOK (insert_reply store_insert_fails
              (calls world0 @ [insert_call store_insert_fails ctx1
                                 (MigrationType ''db.coll'' move_S1_S2 False)]))"
    by (simp_all add: r isOK_def)
  note run = writeMigration_failed_insert_cleans_up [OF h1 h2 h3 h4 h5]
  have a: "fst (writeMigration store_insert_fails (Some ctx1) move_S1_S2 False world0) =
       Inr (Inl (Status (OtherError 10107) ''not primary''))"
    using run r by simp
  have b: "calls (snd (writeMigration store_insert_fails (Some ctx1) move_S1_S2 False world0)) =
       [insert_call store_insert_fails ctx1 (MigrationType ''db.coll'' move_S1_S2 False),
        RemoveConfigDocuments ctx1 ''config.migrations''
          [(''ns'', BSONString ''db.coll''), (''min'', BSONObject [(''x'', BSONInt 10)])]
          kMajorityWriteConcern]"
    using run
    by (simp add: world0_def remove_call_def store_insert_fails_def move_S1_S2_def)
  from h1 r a b show ?thesis by blast
qed

subsection \<open>How often the insert is tried\<close>

text \<open>
  The claim C1 as it is written allows two attempts beyond the first, three inserts in all,
  before the call gives up. Here the store answers \<open>DuplicateKey\<close> to the first two inserts
  and would accept a third; no document is ever found. The call returns the status of
  lines 184 to 189 after two inserts, and the third is never made.
\<close>

theorem writeMigration_no_third_attempt:
  "fst (writeMigration store_conflict_twice (Some ctx1) move_S1_S2 False world0)
     = Inr (Inl (max_retries_status store_conflict_twice move_S1_S2 ''db.coll''))
   \<and> count_inserts (calls (snd (writeMigration store_conflict_twice (Some ctx1) move_S1_S2 False
        world0))) = 2
   \<and> insert_reply store_conflict_twice
        (calls (snd (writeMigration store_conflict_twice (Some ctx1) move_S1_S2 False world0))
           @ [insert_call store_conflict_twice ctx1 migration_S1_S2])
       = Status OK []"
  by code_simp

text \<open>
  C1, amended. The loop runs while \<open>retry < kDuplicateKeyErrorMaxRetries\<close>, from 0, and the
  constant is 2: every call of \<open>writeMigration\<close> makes at most 2 inserts, the first and one
  retry. When both meet \<open>DuplicateKey\<close> and both finds return no document, the call returns
  the status of lines 184 to 189 with exactly those 2 inserts made.
\<close>

theorem writeMigration_two_insert_attempts:
  "count_inserts (calls (snd (writeMigration E opCtx migrateInfo waitForDelete w)))
     \<le> count_inserts (calls w) + 2
   \<and> (opCtx = Some c \<and> getNss E c migrateInfo = Inr nss
        \<and> after_retries E c migrateInfo nss (MigrationType nss migrateInfo waitForDelete) w 2
            = Some w2
      \<longrightarrow> writeMigration E opCtx migrateInfo waitForDelete w =
            (Inr (Inl (max_retries_status E migrateInfo nss)), w2)
          \<and> count_inserts (calls w2) = count_inserts (calls w) + 2)"
proof (intro conjI impI)
  show "count_inserts (calls (snd (writeMigration E opCtx migrateInfo waitForDelete w)))
          \<le> count_inserts (calls w) + 2"
  proof (cases opCtx)
    case None
    then show ?thesis by (simp add: writeMigration_def)
  next
    case (Some c')
    show ?thesis
    proof (cases "getNss E c' migrateInfo")
      case (Inl st)
      with Some show ?thesis by (simp add: writeMigration_def)
    next
      case (Inr nss')
      with Some
        loop_count_inserts [of E c' migrateInfo nss' "MigrationType nss' migrateInfo waitForDelete" 0 w]
      show ?thesis by (simp add: writeMigration_def kDuplicateKeyErrorMaxRetries_def)
    qed
  qed
next
  assume a: "opCtx = Some c \<and> getNss E c migrateInfo = Inr nss
        \<and> after_retries E c migrateInfo nss (MigrationType nss migrateInfo waitForDelete) w 2
            = Some w2"
  then have ar: "after_retries E c migrateInfo nss (MigrationType nss migrateInfo waitForDelete) w
                   kDuplicateKeyErrorMaxRetries = Some w2"
    by (simp add: kDuplicateKeyErrorMaxRetries_def)
  from a have nss: "getNss E c migrateInfo = Inr nss" and c: "opCtx = Some c" by simp_all
  from writeMigration_enters_loop [OF nss ar] c
  show "writeMigration E opCtx migrateInfo waitForDelete w =
          (Inr (Inl (max_retries_status E migrateInfo nss)), w2)"
    by (simp add: loop_exit)
  from count_inserts_after_retries [OF ar]
  show "count_inserts (calls w2) = count_inserts (calls w) + 2"
    by (simp add: kDuplicateKeyErrorMaxRetries_def)
qed

theorem writeMigration_two_insert_attempts_witness:
  "getNss store_conflict_twice ctx1 move_S1_S2 = Inr ''db.coll''
   \<and> after_retries store_conflict_twice ctx1 move_S1_S2 ''db.coll''
        (MigrationType ''db.coll'' move_S1_S2 False) world0 2
       = Some \<lparr>calls = [insert_call store_conflict_twice ctx1 migration_S1_S2,
                        find_call store_conflict_twice ctx1 move_S1_S2 ''db.coll'',
                        insert_call store_conflict_twice ctx1 migration_S1_S2,
                        find_call store_conflict_twice ctx1 move_S1_S2 ''db.coll''],
               logged = []\<rparr>
   \<and> writeMigration store_conflict_twice (Some ctx1) move_S1_S2 False world0 =
       (Inr (Inl (max_retries_status store_conflict_twice move_S1_S2 ''db.coll'')),
        \<lparr>calls = [insert_call store_conflict_twice ctx1 migration_S1_S2,
                  find_call store_conflict_twice ctx1 move_S1_S2 ''db.coll'',
                  insert_call store_conflict_twice ctx1 migration_S1_S2,
                  find_call store_conflict_twice ctx1 move_S1_S2 ''db.coll''],
         logged = []\<rparr>)"
proof -
  have h1: "getNss store_conflict_twice ctx1 move_S1_S2 = Inr ''db.coll''"
    by (simp add: store_conflict_twice_def move_S1_S2_def)
  have h2: "after_retries store_conflict_twice ctx1 move_S1_S2 ''db.coll''
        (MigrationType ''db.coll'' move_S1_S2 False) world0 2
       = Some \<lparr>calls = [insert_call store_conflict_twice ctx1 migration_S1_S2,
                        find_call store_conflict_twice ctx1 move_S1_S2 ''db.coll'',
                        insert_call store_conflict_twice ctx1 migration_S1_S2,
                        find_call store_conflict_twice ctx1 move_S1_S2 ''db.coll''],
               logged = []\<rparr>"
    by (simp add: numeral_2_eq_2 store_conflict_twice_def world0_def dup_key_def
        count_inserts_def insert_call_def find_call_def migration_S1_S2_def)
  from writeMigration_two_insert_attempts
    [of store_conflict_twice "Some ctx1" move_S1_S2 False world0 ctx1 "''db.coll''"
        "\<lparr>calls = [insert_call store_conflict_twice ctx1 migration_S1_S2,
                  find_call store_conflict_twice ctx1 move_S1_S2 ''db.coll'',
                  insert_call store_conflict_twice ctx1 migration_S1_S2,
                  find_call store_conflict_twice ctx1 move_S1_S2 ''db.coll''],
         logged = []\<rparr>"]
    h1 h2
  show ?thesis by blast
qed

subsection \<open>Removals over the life of a handle\<close>

lemma lifetime_disarmed:
  assumes "m_opCtx this = None" and "lifetime E ops this w = Inr (sts, w')"
  shows "ops = [] \<and> sts = [] \<and> w' = w"
proof (cases ops)
  case Nil
  with assms show ?thesis by (auto simp: destructor_disarmed)
next
  case (Cons a ops')
  with assms show ?thesis
    by (cases a) (simp_all add: tryToRemoveMigration_def keepDocumentOnDestruct_def)
qed

lemma count_removals_own_call:
  "count_removals E this (cs @ [remove_call E c (m_nss this) (m_minKey this)])
     = count_removals E this cs + 1"
  by (simp add: count_removals_def remove_call_def migrationDocumentIdentifier_def)

lemma lifetime_armed:
  "m_opCtx this = Some c \<Longrightarrow> lifetime E ops this w = Inr (sts, w') \<Longrightarrow>
     count_removals E this (calls w') =
       count_removals E this (calls w) + length (filter (\<lambda>st. \<not> isOK st) sts)
         + (if KeepDocumentOnDestruct \<in> set ops then 0 else 1)"
proof (induction ops arbitrary: w sts)
  case Nil
  then show ?case
    by (auto simp: calls_destructor_armed count_removals_own_call)
next
  case (Cons a ops)
  let ?r = "remove_call E c (m_nss this) (m_minKey this)"
  let ?st = "remove_reply E (calls w @ [?r])"
  let ?w1 = "w\<lparr>calls := calls w @ [?r]\<rparr>"
  show ?case
  proof (cases a)
    case TryToRemoveMigration
    show ?thesis
    proof (cases "isOK ?st")
      case True
      with Cons.prems TryToRemoveMigration
      obtain sts1 where run: "lifetime E ops (this\<lparr>m_opCtx := None\<rparr>) ?w1 = Inr (sts1, w')"
        and sts: "sts = ?st # sts1"
        by (auto simp: try_armed split: sum.splits)
      from lifetime_disarmed [OF _ run] have "ops = []" "sts1 = []" "w' = ?w1" by simp_all
      with sts True TryToRemoveMigration show ?thesis
        by (simp add: count_removals_own_call)
    next
      case False
      with Cons.prems TryToRemoveMigration
      obtain sts1 where run: "lifetime E ops this ?w1 = Inr (sts1, w')"
        and sts: "sts = ?st # sts1"
        by (auto simp: try_armed split: sum.splits)
      from Cons.IH [OF Cons.prems(1) run] sts False TryToRemoveMigration show ?thesis
        by (simp add: count_removals_own_call)
    qed
  next
    case KeepDocumentOnDestruct
    with Cons.prems obtain w1 where
      run: "lifetime E ops (this\<lparr>m_opCtx := None\<rparr>) w1 = Inr (sts, w')"
      and w1: "calls w1 = calls w"
      by (auto simp: keepDocumentOnDestruct_def log_line_def)
    from lifetime_disarmed [OF _ run] have "ops = []" "sts = []" "w' = w1" by simp_all
    with w1 KeepDocumentOnDestruct show ?thesis by simp
  qed
qed

text \<open>
  The claim C3 as it is written says that one removal is triggered over the life of a
  handle, never two. Here the store refuses every removal: the handle that \<open>writeMigration\<close>
  returned is asked once to \<open>tryToRemoveMigration\<close>, which fails and leaves it Armed, and its
  destructor issues the removal a second time.
\<close>

theorem failed_tryToRemoveMigration_second_removal:
  "writeMigration store_remove_fails (Some ctx1) move_S1_S2 False world0 =
     (Inr (Inr handle1),
      \<lparr>calls = [insert_call store_remove_fails ctx1 migration_S1_S2], logged = []\<rparr>)
   \<and> lifetime store_remove_fails [TryToRemoveMigration] handle1
        \<lparr>calls = [insert_call store_remove_fails ctx1 migration_S1_S2], logged = []\<rparr> =
       Inr ([Status (OtherError 10107) ''not primary''],
            \<lparr>calls = [insert_call store_remove_fails ctx1 migration_S1_S2,
                      remove_call store_remove_fails ctx1 ''db.coll'' [(''x'', BSONInt 10)],
                      remove_call store_remove_fails ctx1 ''db.coll'' [(''x'', BSONInt 10)]],
             logged = [LOGV2 21900 ''Failed to remove config.migrations document for migration''
                         [(''migration'', AttrBSON [(''ns'', BSONString ''db.coll''),
                                                    (''min'', BSONObject [(''x'', BSONInt 10)])]),
                          (''error'', AttrString ''not primary'')]]\<rparr>)
   \<and> count_removals store_remove_fails handle1
        [insert_call store_remove_fails ctx1 migration_S1_S2,
         remove_call store_remove_fails ctx1 ''db.coll'' [(''x'', BSONInt 10)],
         remove_call store_remove_fails ctx1 ''db.coll'' [(''x'', BSONInt 10)]] = 2"
  by code_simp

text \<open>
  C3, amended. For a handle returned by \<open>writeMigration\<close> and any run of its life that no
  failed \<open>invariant\<close> cuts short, the removals of its document that are issued are: one for
  each \<open>tryToRemoveMigration\<close> that failed, plus exactly one more (the
  \<open>tryToRemoveMigration\<close> that succeeded, after which the destructor does nothing, or else
  the destructor's), unless \<open>keepDocumentOnDestruct\<close> was called, in which case there is no
  further one. So without a failed \<open>tryToRemoveMigration\<close> the count is exactly one, or zero
  after \<open>keepDocumentOnDestruct\<close>.
\<close>

theorem lifetime_removals:
  assumes "writeMigration E opCtx migrateInfo waitForDelete w0 = (Inr (Inr this), w)"
    and "lifetime E ops this w = Inr (sts, w')"
  shows "count_removals E this (calls w') =
           count_removals E this (calls w) + length (filter (\<lambda>st. \<not> isOK st) sts)
             + (if KeepDocumentOnDestruct \<in> set ops then 0 else 1)"
proof -
  from writeMigration_handle_armed [OF assms(1)] obtain c where "m_opCtx this = Some c"
    by auto
  from lifetime_armed [OF this assms(2)] show ?thesis .
qed

theorem lifetime_removals_witness:
  "writeMigration store_remove_fails_once (Some ctx1) move_S1_S2 False world0 =
     (Inr (Inr handle1),
      \<lparr>calls = [insert_call store_remove_fails_once ctx1 migration_S1_S2], logged = []\<rparr>)
   \<and> lifetime store_remove_fails_once [TryToRemoveMigration, TryToRemoveMigration] handle1
        \<lparr>calls = [insert_call store_remove_fails_once ctx1 migration_S1_S2], logged = []\<rparr> =
       Inr ([Status (OtherError 10107) ''not primary'', Status OK []],
            \<lparr>calls = [insert_call store_remove_fails_once ctx1 migration_S1_S2,
                      remove_call store_remove_fails_once ctx1 ''db.coll'' [(''x'', BSONInt 10)],
                      remove_call store_remove_fails_once ctx1 ''db.coll'' [(''x'', BSONInt 10)]],
             logged = []\<rparr>)
   \<and> count_removals store_remove_fails_once handle1
        [insert_call store_remove_fails_once ctx1 migration_S1_S2,
         remove_call store_remove_fails_once ctx1 ''db.coll'' [(''x'', BSONInt 10)],
         remove_call store_remove_fails_once ctx1 ''db.coll'' [(''x'', BSONInt 10)]] = 2"
proof -
  have h1: "writeMigration store_remove_fails_once (Some ctx1) move_S1_S2 False world0 =
     (Inr (Inr handle1),
      \<lparr>calls = [insert_call store_remove_fails_once ctx1 migration_S1_S2], logged = []\<rparr>)"
    by code_simp
  have h2: "lifetime store_remove_fails_once [TryToRemoveMigration, TryToRemoveMigration] handle1
        \<lparr>calls = [insert_call store_remove_fails_once ctx1 migration_S1_S2], logged = []\<rparr> =
       Inr ([Status (OtherError 10107) ''not primary'', Status OK []],
            \<lparr>calls = [insert_call store_remove_fails_once ctx1 migration_S1_S2,
                      remove_call store_remove_fails_once ctx1 ''db.coll'' [(''x'', BSONInt 10)],
                      remove_call store_remove_fails_once ctx1 ''db.coll'' [(''x'', BSONInt 10)]],
             logged = []\<rparr>)"
    by code_simp
  have c0: "count_removals store_remove_fails_once handle1
              [insert_call store_remove_fails_once ctx1 migration_S1_S2] = 0"
    by (simp add: count_removals_def insert_call_def)
  from lifetime_removals [OF h1 h2] c0
  have "count_removals store_remove_fails_once handle1
        [insert_call store_remove_fails_once ctx1 migration_S1_S2,
         remove_call store_remove_fails_once ctx1 ''db.coll'' [(''x'', BSONInt 10)],
         remove_call store_remove_fails_once ctx1 ''db.coll'' [(''x'', BSONInt 10)]] = 2"
    by (simp add: isOK_def)
  with h1 h2 show ?thesis by blast
qed

end
